theory Spec2Isabelle
  imports Complex_Main "HOL-Library.Char_ord" "HOL-Library.List_Lexorder"
    "HOL-Library.Product_Lexorder"
begin

section \<open>Data model\<close>

text \<open>
  The program (\<^verbatim>\<open>src/core/IB.py\<close>, \<^verbatim>\<open>src/server.py\<close>) is Python on top of the
  computer-algebra library sympy.  Only the two files are the program; sympy is a library
  the program calls.  The embedding therefore has three layers:
  \<^item> the values the program handles: expression trees, applied predicates, JSON values,
    Python exceptions;
  \<^item> the library: a record \<open>engine\<close> holding one function per sympy operation the
    program calls, so that every theorem about the program holds for every behaviour of
    the library;
  \<^item> the program: one definition per function of the two source files, with the
    process-wide assumption set passed in and out explicitly.

  Python strings are held as their UTF-8 bytes, so \<^verbatim>\<open>'\<Delta>'\<close> is two \<open>char\<close>s.
\<close>

type_synonym symbol = string

text \<open>
  A fragment of sympy's expression trees: integers, symbols (identified by name), n-ary
  sums and products, powers, absolute values and the number symbols \<^verbatim>\<open>pi\<close> and
  \<^verbatim>\<open>E\<close> (sympy's classes \<^verbatim>\<open>Pi\<close> and \<^verbatim>\<open>Exp1\<close>).
\<close>

datatype Expr =
    Integer int
  | Symbol symbol
  | Add "Expr list"
  | Mul "Expr list"
  | Pow Expr Expr
  | Abs Expr
  | Pi
  | Exp1

text \<open>\<^verbatim>\<open>type(x)\<close> of the objects the program inspects, and \<^verbatim>\<open>x.args\<close>.\<close>

datatype pytype = T_Integer | T_Symbol | T_Add | T_Mul | T_Pow | T_Abs | T_Pi | T_Exp1
  | T_Expression

fun type_of :: "Expr \<Rightarrow> pytype" where
  "type_of (Integer n) = T_Integer"
| "type_of (Symbol s) = T_Symbol"
| "type_of (Add xs) = T_Add"
| "type_of (Mul xs) = T_Mul"
| "type_of (Pow b e) = T_Pow"
| "type_of (Abs x) = T_Abs"
| "type_of Pi = T_Pi"
| "type_of Exp1 = T_Exp1"

fun Expr_args :: "Expr \<Rightarrow> Expr list" where
  "Expr_args (Add xs) = xs"
| "Expr_args (Mul xs) = xs"
| "Expr_args (Pow b e) = [b, e]"
| "Expr_args (Abs x) = [x]"
| "Expr_args x = []"

text \<open>The symbols occurring in a tree (\<^verbatim>\<open>expr.atoms(sympy.Symbol)\<close>), a Python set.\<close>

fun atoms_Symbol :: "Expr \<Rightarrow> symbol set" where
  "atoms_Symbol (Integer n) = {}"
| "atoms_Symbol (Symbol s) = {s}"
| "atoms_Symbol (Add xs) = (\<Union>x \<in> set xs. atoms_Symbol x)"
| "atoms_Symbol (Mul xs) = (\<Union>x \<in> set xs. atoms_Symbol x)"
| "atoms_Symbol (Pow b e) = atoms_Symbol b \<union> atoms_Symbol e"
| "atoms_Symbol (Abs x) = atoms_Symbol x"
| "atoms_Symbol Pi = {}"
| "atoms_Symbol Exp1 = {}"

text \<open>
  The real number a tree denotes once every symbol has a value.  This is the meaning of
  "mathematically equal" below; it is not part of the program.
\<close>

fun real_value :: "(symbol \<Rightarrow> real) \<Rightarrow> Expr \<Rightarrow> real" where
  "real_value env (Integer n) = of_int n"
| "real_value env (Symbol s) = env s"
| "real_value env (Add xs) = sum_list (map (real_value env) xs)"
| "real_value env (Mul xs) = prod_list (map (real_value env) xs)"
| "real_value env (Pow b (Integer n)) = power_int (real_value env b) n"
| "real_value env (Pow b e) = real_value env b powr real_value env e"
| "real_value env (Abs x) = \<bar>real_value env x\<bar>"
| "real_value env Pi = pi"
| "real_value env Exp1 = exp 1"

text \<open>
  An applied predicate \<^verbatim>\<open>Q.positive(x)\<close>, \<^verbatim>\<open>Q.negative(x)\<close>, ...: the predicate's
  name and its argument.  \<^verbatim>\<open>global_assumptions\<close> is a set of them, owned by the library
  module and shared by every call in the process.
\<close>

datatype AppliedPredicate = AppliedPredicate string Expr

definition Q_positive :: "Expr \<Rightarrow> AppliedPredicate" where
  "Q_positive x = AppliedPredicate ''positive'' x"

definition Q_negative :: "Expr \<Rightarrow> AppliedPredicate" where
  "Q_negative x = AppliedPredicate ''negative'' x"

type_synonym AssumptionsContext = "AppliedPredicate set"

text \<open>JSON values: what \<^verbatim>\<open>request.get_json()\<close> returns and what \<^verbatim>\<open>jsonify\<close> takes.\<close>

datatype json =
    JNull
  | JBool bool
  | JNumber rat
  | JString string
  | JArray "json list"
  | JObject "(string \<times> json) list"

text \<open>
  The Python exceptions the program can meet, all subclasses of \<^verbatim>\<open>Exception\<close>, each
  with its message.
\<close>

datatype error =
    AttributeError string
  | TypeError string
  | ValueError string
  | SympifyError string
  | NotImplementedError string

text \<open>
  What \<^verbatim>\<open>sympy.symbols(names)\<close> returns: one symbol when the string names one, a tuple
  of symbols when it names several (names separated by whitespace or commas, or a range
  written with a colon) or ends with a comma.
\<close>

datatype symbols_result = OneSymbol symbol | SymbolTuple "symbol list"

section \<open>The algebra library\<close>

text \<open>
  One field per sympy operation the two source files call: the operators \<^verbatim>\<open>+\<close>,
  \<^verbatim>\<open>*\<close>, \<^verbatim>\<open>/\<close> on expressions, \<^verbatim>\<open>sympy.Pow\<close>, \<^verbatim>\<open>sympy.Mul(..., evaluate=False)\<close>,
  \<^verbatim>\<open>sympy.Abs\<close>, \<^verbatim>\<open>sympy.symbols(names)\<close>, \<^verbatim>\<open>expr.diff(var)\<close>,
  \<^verbatim>\<open>sympy.refine(expr)\<close> (which reads \<^verbatim>\<open>global_assumptions\<close>),
  \<^verbatim>\<open>expr.subs(values)\<close>, \<^verbatim>\<open>sympy.latex\<close> and \<^verbatim>\<open>sympy.sympify(text, evaluate=False)\<close>.
  The operations that can raise return a sum.
\<close>

record engine =
  e_add :: "Expr \<Rightarrow> Expr \<Rightarrow> Expr"
  e_mul :: "Expr \<Rightarrow> Expr \<Rightarrow> Expr"
  e_truediv :: "Expr \<Rightarrow> Expr \<Rightarrow> Expr"
  e_Pow :: "Expr \<Rightarrow> Expr \<Rightarrow> Expr"
  e_Mul_unevaluated :: "Expr \<Rightarrow> Expr \<Rightarrow> Expr"
  e_Abs :: "Expr \<Rightarrow> Expr"
  e_symbols :: "string \<Rightarrow> error + symbols_result"
  e_diff :: "Expr \<Rightarrow> symbol \<Rightarrow> error + Expr"
  e_refine :: "AssumptionsContext \<Rightarrow> Expr \<Rightarrow> error + Expr"
  e_subs :: "Expr \<Rightarrow> json \<Rightarrow> error + Expr"
  e_latex :: "Expr \<Rightarrow> error + string"
  e_sympify :: "json \<Rightarrow> error + Expr"

text \<open>
  An engine computes with real numbers at \<open>env\<close> when its arithmetic agrees with the
  arithmetic of the reals there (division only where the divisor is not zero).
\<close>

definition engine_sound :: "engine \<Rightarrow> (symbol \<Rightarrow> real) \<Rightarrow> bool" where
  "engine_sound K env \<longleftrightarrow>
     (\<forall>x y. real_value env (e_add K x y) = real_value env x + real_value env y) \<and>
     (\<forall>x y. real_value env y \<noteq> 0 \<longrightarrow>
        real_value env (e_truediv K x y) = real_value env x / real_value env y) \<and>
     (\<forall>y. real_value env y \<noteq> 0 \<longrightarrow>
        real_value env (e_Pow K y (Integer (- 1))) = inverse (real_value env y)) \<and>
     (\<forall>x y. real_value env (e_Mul_unevaluated K x y) = real_value env x * real_value env y)"

section \<open>The Expression class (src/core/IB.py)\<close>

record Expression =
  args :: "symbol list"
  expr :: Expr

text \<open>
  \<^verbatim>\<open>Expression.__init__\<close> stores its two arguments.  It has no \<^verbatim>\<open>raise\<close> and calls
  nothing, so as a result it is always \<open>Inr\<close>.
\<close>

definition Expression_init :: "symbol list \<Rightarrow> Expr \<Rightarrow> error + Expression" where
  "Expression_init as f = Inr \<lparr>args = as, expr = f\<rparr>"

text \<open>The string \<^verbatim>\<open>'\<Delta>'\<close> of line 72, in UTF-8.\<close>

definition Delta :: string where
  "Delta = [CHR 0xCE, CHR 0x94]"

text \<open>
  The loop of \<^verbatim>\<open>calculate_absolute_uncertainty\<close> (lines 71--75) over the remaining
  variables, with the loop's state: the sum so far, the uncertainty variables so far and
  the global assumption set.
  \<^item> Line 72 calls \<^verbatim>\<open>sympy.symbols('\<Delta>' + var.name)\<close>, which may raise and may return a
    tuple.
  \<^item> Line 74 differentiates first, which may raise; then it multiplies by what line 72
    returned and adds to the sum.  When that is a tuple, the line raises
    \<^verbatim>\<open>TypeError\<close>: a tuple times an expression is an error or again a tuple, and an
    expression plus a tuple is an error.
  \<^item> Line 75 adds the positivity of the variable to the global set.

  An exception leaves the function at once; the global set stays as it is at that moment.
\<close>

fun uncertainty_loop ::
  "engine \<Rightarrow> Expr \<Rightarrow> symbol list \<Rightarrow> Expr \<Rightarrow> symbol list \<Rightarrow> AssumptionsContext
    \<Rightarrow> (error + Expr \<times> symbol list) \<times> AssumptionsContext" where
  "uncertainty_loop K f [] uncertainty_expr uncertainty_args G =
     (Inr (uncertainty_expr, uncertainty_args), G)"
| "uncertainty_loop K f (var # vars) uncertainty_expr uncertainty_args G =
     (case e_symbols K (Delta @ var) of
        Inl err \<Rightarrow> (Inl err, G)
      | Inr d_var \<Rightarrow>
          (case e_diff K f var of
             Inl err \<Rightarrow> (Inl err, G)
           | Inr d \<Rightarrow>
               (case d_var of
                  SymbolTuple ds \<Rightarrow> (Inl (TypeError ''unsupported operand type(s)''), G)
                | OneSymbol s \<Rightarrow>
                    uncertainty_loop K f vars
                      (e_add K uncertainty_expr (e_mul K (e_Abs K d) (Symbol s)))
                      (uncertainty_args @ [s])
                      (insert (Q_positive (Symbol var)) G))))"

text \<open>
  \<^verbatim>\<open>calculate_absolute_uncertainty(self, *assumptions)\<close>, lines 67--79: the supplied
  assumptions are added to the global set, the loop runs, the sum is refined under the
  global set, the global set is cleared, the result is constructed.
\<close>

definition calculate_absolute_uncertainty ::
  "engine \<Rightarrow> Expression \<Rightarrow> AppliedPredicate list \<Rightarrow> AssumptionsContext
    \<Rightarrow> (error + Expression) \<times> AssumptionsContext" where
  "calculate_absolute_uncertainty K self assumptions G =
     (case uncertainty_loop K (expr self) (args self) (Integer 0) [] (G \<union> set assumptions) of
        (Inl err, G') \<Rightarrow> (Inl err, G')
      | (Inr (uncertainty_expr, uncertainty_args), G') \<Rightarrow>
          (case e_refine K G' uncertainty_expr of
             Inl err \<Rightarrow> (Inl err, G')
           | Inr refined \<Rightarrow> (Expression_init uncertainty_args refined, {})))"

text \<open>
  \<^verbatim>\<open>calculate_fractional_uncertainty(self, *assumptions)\<close>, lines 92--101.  The second
  test of the \<^verbatim>\<open>elif\<close> compares the type of the Expression object (not of its formula)
  with \<^verbatim>\<open>sympy.Pow\<close>.
\<close>

definition calculate_fractional_uncertainty ::
  "engine \<Rightarrow> Expression \<Rightarrow> AppliedPredicate list \<Rightarrow> AssumptionsContext
    \<Rightarrow> (error + Expression) \<times> AssumptionsContext" where
  "calculate_fractional_uncertainty K self assumptions G =
     (case calculate_absolute_uncertainty K self assumptions G of
        (Inl err, G') \<Rightarrow> (Inl err, G')
      | (Inr absolute_uncertainty, G') \<Rightarrow>
          (let frac_uncertainty_expr =
             (if type_of (expr absolute_uncertainty) = T_Add then
                foldl (\<lambda>acc addend. e_add K acc (e_truediv K addend (expr self)))
                  (Integer 0) (Expr_args (expr absolute_uncertainty))
              else if type_of (expr absolute_uncertainty) = T_Mul \<or> T_Expression = T_Pow then
                e_truediv K (expr absolute_uncertainty) (expr self)
              else
                e_Mul_unevaluated K (expr absolute_uncertainty)
                  (e_Pow K (expr self) (Integer (- 1))))
           in (Expression_init (args absolute_uncertainty) frac_uncertainty_expr, G')))"

text \<open>\<^verbatim>\<open>evaluate(self, values)\<close>, line 54, and \<^verbatim>\<open>to_latex(self)\<close>, line 115.\<close>

definition evaluate :: "engine \<Rightarrow> Expression \<Rightarrow> json \<Rightarrow> error + Expr" where
  "evaluate K self values = e_subs K (expr self) values"

definition to_latex :: "engine \<Rightarrow> Expression \<Rightarrow> error + string" where
  "to_latex K self = e_latex K (expr self)"

text \<open>
  \<^verbatim>\<open>from_latex(cls, latex)\<close>, lines 117--119: the body is \<^verbatim>\<open>pass\<close>, so the call returns
  \<^verbatim>\<open>None\<close> and constructs nothing.
\<close>

definition from_latex :: "string \<Rightarrow> Expression option" where
  "from_latex latex = None"

text \<open>
  The attributes the class body of \<^verbatim>\<open>Expression\<close> binds (the two annotated names
  \<^verbatim>\<open>args\<close> and \<^verbatim>\<open>expr\<close> are annotations only), and the class attribute
  \<^verbatim>\<open>Expression.from_string\<close> as the interpreter finds it: a function of the declared
  argument names and the expression text when the class binds the name, nothing otherwise.
\<close>

definition Expression_attributes :: "string list" where
  "Expression_attributes =
     [''__init__'', ''__repr__'', ''evaluate'', ''calculate_absolute_uncertainty'',
      ''calculate_fractional_uncertainty'', ''to_latex'', ''from_latex'']"

definition Expression_from_string :: "(json \<Rightarrow> json \<Rightarrow> error + Expression) option" where
  "Expression_from_string =
     (if ''from_string'' \<in> set Expression_attributes
      then Some (\<lambda>str_args str_expr. Inl (NotImplementedError ''from_string''))
      else None)"

subsection \<open>Calls with keyword arguments\<close>

text \<open>
  None of the three methods declares a keyword parameter besides its positional ones, and
  none takes \<^verbatim>\<open>**kwargs\<close>.  Python raises \<^verbatim>\<open>TypeError\<close> for a keyword argument such a
  signature cannot bind, before the body runs.  The keyword arguments of a call are the
  list of (name, value) pairs written at the call site.
\<close>

type_synonym kwargs = "(string \<times> json) list"

definition evaluate_call :: "engine \<Rightarrow> Expression \<Rightarrow> json \<Rightarrow> kwargs \<Rightarrow> error + Expr" where
  "evaluate_call K self values kw =
     (case kw of
        [] \<Rightarrow> evaluate K self values
      | (k, v) # _ \<Rightarrow> Inl (TypeError (''evaluate() got an unexpected keyword argument '' @ k)))"

definition calculate_absolute_uncertainty_call ::
  "engine \<Rightarrow> Expression \<Rightarrow> AppliedPredicate list \<Rightarrow> kwargs \<Rightarrow> AssumptionsContext
    \<Rightarrow> (error + Expression) \<times> AssumptionsContext" where
  "calculate_absolute_uncertainty_call K self assumptions kw G =
     (case kw of
        [] \<Rightarrow> calculate_absolute_uncertainty K self assumptions G
      | (k, v) # _ \<Rightarrow>
          (Inl (TypeError
             (''calculate_absolute_uncertainty() got an unexpected keyword argument '' @ k)), G))"

definition calculate_fractional_uncertainty_call ::
  "engine \<Rightarrow> Expression \<Rightarrow> AppliedPredicate list \<Rightarrow> kwargs \<Rightarrow> AssumptionsContext
    \<Rightarrow> (error + Expression) \<times> AssumptionsContext" where
  "calculate_fractional_uncertainty_call K self assumptions kw G =
     (case kw of
        [] \<Rightarrow> calculate_fractional_uncertainty K self assumptions G
      | (k, v) # _ \<Rightarrow>
          (Inl (TypeError
             (''calculate_fractional_uncertainty() got an unexpected keyword argument '' @ k)), G))"

section \<open>The request handlers (src/server.py)\<close>

text \<open>
  Sequencing of steps that may raise, and a list comprehension whose body may raise.  A
  response is the JSON value handed to \<^verbatim>\<open>jsonify\<close>; the \<^verbatim>\<open>print(e)\<close> of the
  \<^verbatim>\<open>except\<close> branches writes to the console only and is left out.
\<close>

definition and_then :: "error + 'a \<Rightarrow> ('a \<Rightarrow> error + 'b) \<Rightarrow> error + 'b" where
  "and_then r f = (case r of Inl err \<Rightarrow> Inl err | Inr x \<Rightarrow> f x)"

fun comprehension :: "('a \<Rightarrow> error + 'b) \<Rightarrow> 'a list \<Rightarrow> error + 'b list" where
  "comprehension f [] = Inr []"
| "comprehension f (x # xs) =
     and_then (f x) (\<lambda>y. and_then (comprehension f xs) (\<lambda>ys. Inr (y # ys)))"

text \<open>
  \<^verbatim>\<open>body.get(key, default)\<close> on the value \<^verbatim>\<open>request.get_json()\<close> returned.  Only a
  \<^verbatim>\<open>dict\<close> has the method; on \<^verbatim>\<open>None\<close>, a list, a string, a number or a boolean the
  attribute lookup raises \<^verbatim>\<open>AttributeError\<close>.
\<close>

fun dict_get :: "json \<Rightarrow> string \<Rightarrow> json \<Rightarrow> error + json" where
  "dict_get (JObject kvs) key dflt =
     Inr (case map_of kvs key of None \<Rightarrow> dflt | Some v \<Rightarrow> v)"
| "dict_get body key dflt = Inl (AttributeError ''get'')"

subsection \<open>Symbol extraction: get_symbols, lines 39--55\<close>





subsection \<open>Uncertainty calculation: calculate_uncertainties, lines 72--100\<close>

text \<open>
  Iterating a JSON value as Python does: a list yields its elements, a string its
  characters (the UTF-8 bytes of one character stay together), a dict its keys; anything
  else is not iterable.
\<close>

definition is_continuation :: "char \<Rightarrow> bool" where
  "is_continuation c \<longleftrightarrow> (128::nat) \<le> of_char c \<and> (of_char c :: nat) < 192"

function py_chars :: "string \<Rightarrow> string list" where
  "py_chars [] = []"
| "py_chars (c # cs) =
     (c # takeWhile is_continuation cs) # py_chars (dropWhile is_continuation cs)"
  by pat_completeness auto
termination
  by (relation "measure length") (auto simp: length_dropWhile_le less_Suc_eq_le)

fun py_iter :: "json \<Rightarrow> error + json list" where
  "py_iter (JArray xs) = Inr xs"
| "py_iter (JString s) = Inr (map JString (py_chars s))"
| "py_iter (JObject kvs) = Inr (map (\<lambda>(k, v). JString k) kvs)"
| "py_iter v = Inl (TypeError ''object is not iterable'')"

text \<open>\<^verbatim>\<open>sympy.Symbol(var)\<close>: the name must be a string.\<close>

fun Symbol_new :: "json \<Rightarrow> error + Expr" where
  "Symbol_new (JString s) = Inr (Symbol s)"
| "Symbol_new v = Inl (TypeError ''name should be a string'')"

definition positive_assumptions :: "json \<Rightarrow> error + AppliedPredicate list" where
  "positive_assumptions str_vars =
     and_then (py_iter str_vars)
       (comprehension (\<lambda>var. and_then (Symbol_new var) (\<lambda>s. Inr (Q_positive s))))"

text \<open>The dict handed to \<^verbatim>\<open>jsonify\<close> on success, lines 83--90, built entry by entry.\<close>

definition success_response ::
  "engine \<Rightarrow> Expression \<Rightarrow> Expression \<Rightarrow> Expression \<Rightarrow> json \<Rightarrow> json \<Rightarrow> error + json" where
  "success_response K parsed absolute_uncertainty_expr fractional_uncertainty_expr values prec =
     and_then (evaluate_call K parsed values [(''precision'', prec)]) (\<lambda>v.
     and_then (e_latex K v) (\<lambda>value_latex.
     and_then (to_latex K absolute_uncertainty_expr) (\<lambda>abs_expr_latex.
     and_then (evaluate_call K absolute_uncertainty_expr values [(''precision'', prec)]) (\<lambda>a.
     and_then (e_latex K a) (\<lambda>abs_latex.
     and_then (to_latex K fractional_uncertainty_expr) (\<lambda>frac_expr_latex.
     and_then (evaluate_call K fractional_uncertainty_expr values [(''precision'', prec)]) (\<lambda>f.
     and_then (e_latex K (e_mul K f (Integer 100))) (\<lambda>percentage_latex.
       Inr (JObject [(''success'', JBool True),
                     (''value'', JString value_latex),
                     (''absoluteUncertaintyExpr'', JString abs_expr_latex),
                     (''absoluteUncertainty'', JString abs_latex),
                     (''fractionalUncertaintyExpr'', JString frac_expr_latex),
                     (''percentageUncertainty'', JString percentage_latex)])))))))))"

text \<open>
  The \<^verbatim>\<open>try\<close> block, lines 79--90.  \<open>from_string\<close> is what the lookup of
  \<^verbatim>\<open>Expression.from_string\<close> finds.
\<close>

definition calculate_try ::
  "engine \<Rightarrow> (json \<Rightarrow> json \<Rightarrow> error + Expression) option \<Rightarrow> json \<Rightarrow> json \<Rightarrow> json \<Rightarrow> json
    \<Rightarrow> json \<Rightarrow> json \<Rightarrow> AssumptionsContext \<Rightarrow> (error + json) \<times> AssumptionsContext" where
  "calculate_try K from_string str_expr str_args str_vars values prec refine G =
     (case (case from_string of
              None \<Rightarrow> Inl (AttributeError ''from_string'')
            | Some f \<Rightarrow> f str_args str_expr) of
        Inl err \<Rightarrow> (Inl err, G)
      | Inr parsed \<Rightarrow>
     (case positive_assumptions str_vars of
        Inl err \<Rightarrow> (Inl err, G)
      | Inr assumptions \<Rightarrow>
     (case calculate_absolute_uncertainty_call K parsed assumptions [(''refine'', refine)] G of
        (Inl err, G1) \<Rightarrow> (Inl err, G1)
      | (Inr absolute_uncertainty_expr, G1) \<Rightarrow>
     (case calculate_fractional_uncertainty_call K parsed assumptions [(''refine'', refine)] G1 of
        (Inl err, G2) \<Rightarrow> (Inl err, G2)
      | (Inr fractional_uncertainty_expr, G2) \<Rightarrow>
          (success_response K parsed absolute_uncertainty_expr fractional_uncertainty_expr
             values prec, G2)))))"

text \<open>The dict handed to \<^verbatim>\<open>jsonify\<close> by the \<^verbatim>\<open>except\<close> branch, lines 93--100.\<close>

definition failure_response :: json where
  "failure_response =
     JObject [(''success'', JBool False),
              (''value'', JString []),
              (''absoluteUncertaintyExpr'', JString []),
              (''absoluteUncertainty'', JString []),
              (''fractionalUncertaintyExpr'', JString []),
              (''percentageUncertainty'', JString [])]"

text \<open>
  The six reads of the request body, lines 72--77.  They stand before the \<^verbatim>\<open>try\<close>.
\<close>

definition request_fields :: "json \<Rightarrow> error + json \<times> json \<times> json \<times> json \<times> json \<times> json" where
  "request_fields body =
     and_then (dict_get body ''expr'' (JString [])) (\<lambda>str_expr.
     and_then (dict_get body ''args'' (JArray [])) (\<lambda>str_args.
     and_then (dict_get body ''vars'' (JArray [])) (\<lambda>str_vars.
     and_then (dict_get body ''values'' (JObject [])) (\<lambda>values.
     and_then (dict_get body ''prec'' (JNumber 3)) (\<lambda>prec.
     and_then (dict_get body ''refine'' (JBool False)) (\<lambda>refine.
       Inr (str_expr, str_args, str_vars, values, prec, refine)))))))"

text \<open>
  The handler, lines 72--100: the reads, then the \<^verbatim>\<open>try\<close> block with its
  \<^verbatim>\<open>except Exception\<close>.  The result \<open>Inl\<close> is an exception that leaves the handler.
\<close>

definition calculate_uncertainties_with ::
  "engine \<Rightarrow> (json \<Rightarrow> json \<Rightarrow> error + Expression) option \<Rightarrow> json \<Rightarrow> AssumptionsContext
    \<Rightarrow> (error + json) \<times> AssumptionsContext" where
  "calculate_uncertainties_with K from_string body G =
     (case request_fields body of
        Inl err \<Rightarrow> (Inl err, G)
      | Inr (str_expr, str_args, str_vars, values, prec, refine) \<Rightarrow>
          (case calculate_try K from_string str_expr str_args str_vars values prec refine G of
             (Inl err, G') \<Rightarrow> (Inr failure_response, G')
           | (Inr response, G') \<Rightarrow> (Inr response, G')))"

definition calculate_uncertainties ::
  "engine \<Rightarrow> json \<Rightarrow> AssumptionsContext \<Rightarrow> (error + json) \<times> AssumptionsContext" where
  "calculate_uncertainties K body G =
     calculate_uncertainties_with K Expression_from_string body G"

section \<open>A reference engine\<close>

text \<open>
  A small instance of the library, for running the program on concrete inputs.  It follows
  sympy's automatic evaluation on the cases it covers: sums and products are flattened,
  their integer terms and factors are combined, \<open>0\<close> and \<open>1\<close> are dropped, a product with
  a zero factor is zero, \<open>Abs\<close> of an integer is evaluated and \<open>Abs\<close> of a product takes
  the integer coefficient out, \<open>refine\<close> removes \<open>Abs\<close> around an argument assumed
  positive or negative, raises \<^verbatim>\<open>ValueError\<close> when the argument is assumed both, and
  leaves atoms alone.  \<open>symbols\<close> returns the one symbol of a name without whitespace,
  comma, colon or backslash, splits at spaces, and does not cover the other separators.
  The engine does not sort arguments, collect equal terms or distribute coefficients.
  Differentiation covers sums, products and integer powers and raises on anything else;
  substitution covers integer values; parsing and markup cover single lowercase letters.
\<close>

fun is_Integer :: "Expr \<Rightarrow> bool" where
  "is_Integer (Integer n) = True"
| "is_Integer x = False"

fun the_Integer :: "Expr \<Rightarrow> int" where
  "the_Integer (Integer n) = n"
| "the_Integer x = 0"

fun add_terms :: "Expr \<Rightarrow> Expr list" where
  "add_terms (Add xs) = xs"
| "add_terms x = [x]"

fun mul_factors :: "Expr \<Rightarrow> Expr list" where
  "mul_factors (Mul xs) = xs"
| "mul_factors x = [x]"

definition collect_Add :: "Expr list \<Rightarrow> Expr" where
  "collect_Add xs =
     (let n = sum_list (map the_Integer (filter is_Integer xs));
          rest = filter (\<lambda>x. \<not> is_Integer x) xs
      in if rest = [] then Integer n
         else if n = 0 then (case rest of [r] \<Rightarrow> r | _ \<Rightarrow> Add rest)
         else Add (Integer n # rest))"

definition collect_Mul :: "Expr list \<Rightarrow> Expr" where
  "collect_Mul xs =
     (let n = prod_list (map the_Integer (filter is_Integer xs));
          rest = filter (\<lambda>x. \<not> is_Integer x) xs
      in if n = 0 then Integer 0
         else if rest = [] then Integer n
         else if n = 1 then (case rest of [r] \<Rightarrow> r | _ \<Rightarrow> Mul rest)
         else Mul (Integer n # rest))"

definition ref_add :: "Expr \<Rightarrow> Expr \<Rightarrow> Expr" where
  "ref_add x y = collect_Add (add_terms x @ add_terms y)"

definition ref_mul :: "Expr \<Rightarrow> Expr \<Rightarrow> Expr" where
  "ref_mul x y = collect_Mul (mul_factors x @ mul_factors y)"

fun ref_Pow :: "Expr \<Rightarrow> Expr \<Rightarrow> Expr" where
  "ref_Pow b (Integer n) =
     (if n = 1 then b
      else if n = 0 then Integer 1
      else if is_Integer b \<and> 0 < n then Integer (the_Integer b ^ nat n)
      else if b = Integer 1 then Integer 1
      else Pow b (Integer n))"
| "ref_Pow b e = Pow b e"

definition ref_truediv :: "Expr \<Rightarrow> Expr \<Rightarrow> Expr" where
  "ref_truediv x y = ref_mul x (ref_Pow y (Integer (- 1)))"

definition ref_Mul_unevaluated :: "Expr \<Rightarrow> Expr \<Rightarrow> Expr" where
  "ref_Mul_unevaluated x y = Mul [x, y]"

fun ref_Abs :: "Expr \<Rightarrow> Expr" where
  "ref_Abs (Integer n) = Integer \<bar>n\<bar>"
| "ref_Abs (Mul [Integer n, x]) = ref_mul (Integer \<bar>n\<bar>) (Abs x)"
| "ref_Abs (Mul (Integer n # x # y # zs)) = ref_mul (Integer \<bar>n\<bar>) (Abs (Mul (x # y # zs)))"
| "ref_Abs x = Abs x"

definition separator :: "char \<Rightarrow> bool" where
  "separator c \<longleftrightarrow> (of_char c :: nat) \<in> {9, 10, 11, 12, 13, 32, 44, 58, 92}"

fun split_words :: "string \<Rightarrow> string \<Rightarrow> string list" where
  "split_words w [] = (if w = [] then [] else [w])"
| "split_words w (c # cs) =
     (if c = CHR 0x20
      then (if w = [] then split_words [] cs else w # split_words [] cs)
      else split_words (w @ [c]) cs)"

definition ref_symbols :: "string \<Rightarrow> error + symbols_result" where
  "ref_symbols names =
     (if \<forall>c \<in> set names. \<not> separator c then Inr (OneSymbol names)
      else if \<forall>c \<in> set names. separator c \<longrightarrow> c = CHR 0x20 then
        (case split_words [] names of
           [] \<Rightarrow> Inl (ValueError ''no symbols given'')
         | [w] \<Rightarrow> Inr (OneSymbol w)
         | ws \<Rightarrow> Inr (SymbolTuple ws))
      else Inl (NotImplementedError ''symbols''))"

fun polynomial :: "Expr \<Rightarrow> bool" where
  "polynomial (Add xs) = (\<forall>x \<in> set xs. polynomial x)"
| "polynomial (Mul xs) = (\<forall>x \<in> set xs. polynomial x)"
| "polynomial (Pow b (Integer n)) = polynomial b"
| "polynomial (Pow b e) = False"
| "polynomial (Abs x) = False"
| "polynomial x = True"

fun derivative :: "Expr \<Rightarrow> symbol \<Rightarrow> Expr" where
  "derivative (Symbol s) v = (if s = v then Integer 1 else Integer 0)"
| "derivative (Add xs) v = collect_Add (concat (map (\<lambda>x. add_terms (derivative x v)) xs))"
| "derivative (Mul []) v = Integer 0"
| "derivative (Mul (x # xs)) v =
     ref_add (ref_mul (derivative x v) (collect_Mul xs)) (ref_mul x (derivative (Mul xs) v))"
| "derivative (Pow b (Integer n)) v =
     ref_mul (ref_mul (Integer n) (ref_Pow b (Integer (n - 1)))) (derivative b v)"
| "derivative x v = Integer 0"

definition ref_diff :: "Expr \<Rightarrow> symbol \<Rightarrow> error + Expr" where
  "ref_diff f v =
     (if polynomial f then Inr (derivative f v)
      else Inl (NotImplementedError ''diff''))"

fun refine_tree :: "AssumptionsContext \<Rightarrow> Expr \<Rightarrow> Expr" where
  "refine_tree G (Add xs) = collect_Add (concat (map (\<lambda>x. add_terms (refine_tree G x)) xs))"
| "refine_tree G (Mul xs) = collect_Mul (concat (map (\<lambda>x. mul_factors (refine_tree G x)) xs))"
| "refine_tree G (Pow b e) = ref_Pow (refine_tree G b) (refine_tree G e)"
| "refine_tree G (Abs x) =
     (let y = refine_tree G x
      in if Q_positive y \<in> G then y
         else if Q_negative y \<in> G then ref_mul (Integer (- 1)) y
         else ref_Abs y)"
| "refine_tree G x = x"

fun conflicting :: "AssumptionsContext \<Rightarrow> Expr \<Rightarrow> bool" where
  "conflicting G (Add xs) = (\<exists>x \<in> set xs. conflicting G x)"
| "conflicting G (Mul xs) = (\<exists>x \<in> set xs. conflicting G x)"
| "conflicting G (Pow b e) = (conflicting G b \<or> conflicting G e)"
| "conflicting G (Abs x) = (conflicting G x \<or> (Q_positive x \<in> G \<and> Q_negative x \<in> G))"
| "conflicting G x = False"

definition ref_refine :: "AssumptionsContext \<Rightarrow> Expr \<Rightarrow> error + Expr" where
  "ref_refine G x =
     (if conflicting G x then Inl (ValueError ''inconsistent assumptions'')
      else Inr (refine_tree G x))"

fun integer_number :: "json \<Rightarrow> bool" where
  "integer_number (JNumber q) = (of_int \<lfloor>q\<rfloor> = q)"
| "integer_number v = False"

fun subs_tree :: "(string \<times> json) list \<Rightarrow> Expr \<Rightarrow> Expr" where
  "subs_tree kvs (Symbol s) =
     (case map_of kvs s of Some (JNumber q) \<Rightarrow> Integer \<lfloor>q\<rfloor> | _ \<Rightarrow> Symbol s)"
| "subs_tree kvs (Add xs) = collect_Add (concat (map (\<lambda>x. add_terms (subs_tree kvs x)) xs))"
| "subs_tree kvs (Mul xs) = collect_Mul (concat (map (\<lambda>x. mul_factors (subs_tree kvs x)) xs))"
| "subs_tree kvs (Pow b e) = ref_Pow (subs_tree kvs b) (subs_tree kvs e)"
| "subs_tree kvs (Abs x) = ref_Abs (subs_tree kvs x)"
| "subs_tree kvs x = x"

fun ref_subs :: "Expr \<Rightarrow> json \<Rightarrow> error + Expr" where
  "ref_subs f (JObject kvs) =
     (if \<forall>(k, v) \<in> set kvs. integer_number v then Inr (subs_tree kvs f)
      else Inl (NotImplementedError ''subs''))"
| "ref_subs f v = Inl (ValueError ''subs'')"

definition lowercase_letter :: "string \<Rightarrow> bool" where
  "lowercase_letter s \<longleftrightarrow>
     (case s of [c] \<Rightarrow> (97::nat) \<le> of_char c \<and> (of_char c :: nat) \<le> 122 | _ \<Rightarrow> False)"

fun ref_latex :: "Expr \<Rightarrow> error + string" where
  "ref_latex (Symbol s) =
     (if lowercase_letter s then Inr s else Inl (NotImplementedError ''latex''))"
| "ref_latex x = Inl (NotImplementedError ''latex'')"

fun ref_sympify :: "json \<Rightarrow> error + Expr" where
  "ref_sympify (JString s) =
     (if lowercase_letter s then Inr (Symbol s) else Inl (SympifyError s))"
| "ref_sympify v = Inl (SympifyError ''not a string'')"

definition ref_engine :: engine where
  "ref_engine =
     \<lparr>e_add = ref_add, e_mul = ref_mul, e_truediv = ref_truediv, e_Pow = ref_Pow,
      e_Mul_unevaluated = ref_Mul_unevaluated, e_Abs = ref_Abs, e_symbols = ref_symbols,
      e_diff = ref_diff,
      e_refine = ref_refine, e_subs = ref_subs, e_latex = ref_latex,
      e_sympify = ref_sympify\<rparr>"

section \<open>Lemmas about the propagator\<close>





lemma calculate_absolute_uncertainty_clears:
  "calculate_absolute_uncertainty K e assumptions G = (Inr r, G') \<Longrightarrow> G' = {}"
  by (auto simp: calculate_absolute_uncertainty_def Expression_init_def
      split: prod.splits sum.splits)

lemma calculate_fractional_uncertainty_clears:
  "calculate_fractional_uncertainty K e assumptions G = (Inr r, G') \<Longrightarrow> G' = {}"
  by (auto simp: calculate_fractional_uncertainty_def Expression_init_def Let_def
      dest: calculate_absolute_uncertainty_clears split: prod.splits sum.splits)


section \<open>Lemmas about the fractional form and the reference engine\<close>

lemma addends_over_formula:
  assumes "engine_sound K env" and "real_value env f \<noteq> 0"
  shows "real_value env (foldl (\<lambda>acc addend. e_add K acc (e_truediv K addend f)) u xs) =
           real_value env u + sum_list (map (real_value env) xs) / real_value env f"
proof (induction xs arbitrary: u)
  case Nil
  then show ?case by simp
next
  case (Cons x xs)
  from assms have "real_value env (e_add K u (e_truediv K x f)) =
      real_value env u + real_value env x / real_value env f"
    by (simp add: engine_sound_def)
  with Cons show ?case by (simp add: add_divide_distrib)
qed

lemma fractional_value:
  assumes sound: "engine_sound K env" and nz: "real_value env (expr e) \<noteq> 0"
    and au: "calculate_absolute_uncertainty K e assumptions G = (Inr au, G')"
  shows "\<exists>fu. calculate_fractional_uncertainty K e assumptions G = (Inr fu, G') \<and>
            args fu = args au \<and>
            real_value env (expr fu) = real_value env (expr au) / real_value env (expr e)"
proof (cases "expr au")
  case (Add xs)
  with au sound nz show ?thesis
    by (simp add: calculate_fractional_uncertainty_def Expression_init_def
        addends_over_formula)
next
  case (Mul xs)
  with au sound nz show ?thesis
    by (simp add: calculate_fractional_uncertainty_def Expression_init_def engine_sound_def)
next
  case (Integer n)
  with au sound nz show ?thesis
    by (simp add: calculate_fractional_uncertainty_def Expression_init_def engine_sound_def
        divide_inverse)
next
  case (Symbol s)
  with au sound nz show ?thesis
    by (simp add: calculate_fractional_uncertainty_def Expression_init_def engine_sound_def
        divide_inverse)
next
  case (Pow b x)
  with au sound nz show ?thesis
    by (simp add: calculate_fractional_uncertainty_def Expression_init_def engine_sound_def
        divide_inverse)
next
  case (Abs x)
  with au sound nz show ?thesis
    by (simp add: calculate_fractional_uncertainty_def Expression_init_def engine_sound_def
        divide_inverse)
next
  case Pi
  with au sound nz show ?thesis
    by (simp add: calculate_fractional_uncertainty_def Expression_init_def engine_sound_def
        divide_inverse)
next
  case Exp1
  with au sound nz show ?thesis
    by (simp add: calculate_fractional_uncertainty_def Expression_init_def engine_sound_def
        divide_inverse)
qed

lemma sum_list_split_Integer:
  "sum_list (map (real_value env) xs) =
     of_int (sum_list (map the_Integer (filter is_Integer xs))) +
     sum_list (map (real_value env) (filter (\<lambda>x. \<not> is_Integer x) xs))"
proof (induction xs)
  case Nil
  then show ?case by simp
next
  case (Cons x xs)
  then show ?case by (cases x) simp_all
qed

lemma prod_list_split_Integer:
  "prod_list (map (real_value env) xs) =
     of_int (prod_list (map the_Integer (filter is_Integer xs))) *
     prod_list (map (real_value env) (filter (\<lambda>x. \<not> is_Integer x) xs))"
proof (induction xs)
  case Nil
  then show ?case by simp
next
  case (Cons x xs)
  then show ?case by (cases x) simp_all
qed

lemma real_value_collect_Add:
  "real_value env (collect_Add xs) = sum_list (map (real_value env) xs)"
  by (simp add: collect_Add_def Let_def sum_list_split_Integer [of env xs]
      split: list.splits)

lemma real_value_collect_Mul:
  "real_value env (collect_Mul xs) = prod_list (map (real_value env) xs)"
  by (simp add: collect_Mul_def Let_def prod_list_split_Integer [of env xs]
      split: list.splits)

lemma real_value_add_terms: "sum_list (map (real_value env) (add_terms x)) = real_value env x"
  by (cases x) simp_all

lemma real_value_mul_factors: "prod_list (map (real_value env) (mul_factors x)) = real_value env x"
  by (cases x) simp_all

lemma real_value_ref_add: "real_value env (ref_add x y) = real_value env x + real_value env y"
  by (simp add: ref_add_def real_value_collect_Add real_value_add_terms)

lemma real_value_ref_mul: "real_value env (ref_mul x y) = real_value env x * real_value env y"
  by (simp add: ref_mul_def real_value_collect_Mul real_value_mul_factors)

lemma real_value_ref_Pow_inverse:
  "real_value env (ref_Pow y (Integer (- 1))) = inverse (real_value env y)"
  by (cases y) (simp_all add: power_int_minus)

lemma ref_engine_sound: "engine_sound ref_engine env"
  by (simp add: engine_sound_def ref_engine_def real_value_ref_add ref_truediv_def
      real_value_ref_mul real_value_ref_Pow_inverse ref_Mul_unevaluated_def divide_inverse)

section \<open>Lemmas about the request handlers\<close>






lemma request_fields_object:
  "\<exists>str_expr str_args str_vars values prec refine.
     request_fields (JObject kvs) = Inr (str_expr, str_args, str_vars, values, prec, refine)"
  by (simp add: request_fields_def and_then_def)

lemma request_fields_not_object:
  "(\<forall>kvs. body \<noteq> JObject kvs) \<Longrightarrow> request_fields body = Inl (AttributeError ''get'')"
  by (cases body) (simp_all add: request_fields_def and_then_def)

lemma calculate_try_raises:
  "\<exists>err. calculate_try K fs str_expr str_args str_vars values prec refine G = (Inl err, G)"
  by (simp add: calculate_try_def calculate_absolute_uncertainty_call_def
      split: option.splits sum.splits)

lemma calculate_uncertainties_with_object:
  "calculate_uncertainties_with K fs (JObject kvs) G = (Inr failure_response, G)"
proof -
  obtain a b c d e f where r: "request_fields (JObject kvs) = Inr (a, b, c, d, e, f)"
    using request_fields_object by blast
  obtain err where "calculate_try K fs a b c d e f G = (Inl err, G)"
    using calculate_try_raises by blast
  with r show ?thesis by (simp add: calculate_uncertainties_with_def)
qed



text \<open>The equations that run the program on the reference engine.\<close>

lemmas ref_simps =
  ref_engine_def ref_diff_def ref_add_def ref_mul_def collect_Add_def collect_Mul_def
  ref_refine_def Expression_init_def ref_truediv_def ref_Mul_unevaluated_def
  ref_symbols_def separator_def Delta_def Q_positive_def Q_negative_def

section \<open>The claims\<close>




text \<open>
  Claim C2.  Wherever the library's arithmetic agrees with the arithmetic of the reals and
  the formula of \<open>e\<close> is not zero, the formula \<^verbatim>\<open>calculate_fractional_uncertainty\<close>
  returns has the value of the absolute-uncertainty formula divided by the value of the
  formula of \<open>e\<close>, whatever the shape of the absolute-uncertainty formula (a sum, a
  product, or anything else; in the code a power takes the last branch, since the second
  test of the \<^verbatim>\<open>elif\<close> looks at the Expression object), and the result has the variable
  list of the absolute-uncertainty result.
\<close>

theorem fractional_is_absolute_over_formula:
  assumes "engine_sound K env"
    and "real_value env (expr e) \<noteq> 0"
    and "calculate_absolute_uncertainty K e assumptions G = (Inr au, G')"
  shows "\<exists>fu. calculate_fractional_uncertainty K e assumptions G = (Inr fu, G') \<and>
            args fu = args au \<and>
            real_value env (expr fu) = real_value env (expr au) / real_value env (expr e)"
  using assms by (rule fractional_value)

text \<open>
  The three branches at \<open>a = b = c = \<Delta>a = \<Delta>b = \<Delta>c = 2\<close>: \<open>a + b - c\<close> (the absolute
  uncertainty is a sum), \<open>c*a\<close> with \<open>c\<close> positive (a product), and \<open>a\<close> (a symbol).
\<close>

theorem fractional_is_absolute_over_formula_witness:
  "engine_sound ref_engine (\<lambda>s. 2) \<and>
   real_value (\<lambda>s. 2)
     (expr \<lparr>args = [''a'', ''b'', ''c''],
            expr = Add [Symbol ''a'', Symbol ''b'', Mul [Integer (- 1), Symbol ''c'']]\<rparr>) \<noteq> 0 \<and>
   calculate_absolute_uncertainty ref_engine
     \<lparr>args = [''a'', ''b'', ''c''],
      expr = Add [Symbol ''a'', Symbol ''b'', Mul [Integer (- 1), Symbol ''c'']]\<rparr> [] {} =
     (Inr \<lparr>args = [[CHR 0xCE, CHR 0x94, CHR ''a''], [CHR 0xCE, CHR 0x94, CHR ''b''], [CHR 0xCE, CHR 0x94, CHR ''c'']],
           expr = Add [Symbol ([CHR 0xCE, CHR 0x94, CHR ''a'']), Symbol ([CHR 0xCE, CHR 0x94, CHR ''b'']), Symbol ([CHR 0xCE, CHR 0x94, CHR ''c''])]\<rparr>, {}) \<and>
   (\<exists>fu. calculate_fractional_uncertainty ref_engine
      \<lparr>args = [''a'', ''b'', ''c''],
       expr = Add [Symbol ''a'', Symbol ''b'', Mul [Integer (- 1), Symbol ''c'']]\<rparr> [] {} =
        (Inr fu, {}) \<and>
      args fu = [[CHR 0xCE, CHR 0x94, CHR ''a''], [CHR 0xCE, CHR 0x94, CHR ''b''], [CHR 0xCE, CHR 0x94, CHR ''c'']] \<and>
      real_value (\<lambda>s. 2) (expr fu) = 3) \<and>
   calculate_absolute_uncertainty ref_engine
     \<lparr>args = [''a''], expr = Mul [Symbol ''c'', Symbol ''a'']\<rparr> [Q_positive (Symbol ''c'')] {} =
     (Inr \<lparr>args = [[CHR 0xCE, CHR 0x94, CHR ''a'']], expr = Mul [Symbol ''c'', Symbol ([CHR 0xCE, CHR 0x94, CHR ''a''])]\<rparr>, {}) \<and>
   (\<exists>fu. calculate_fractional_uncertainty ref_engine
      \<lparr>args = [''a''], expr = Mul [Symbol ''c'', Symbol ''a'']\<rparr> [Q_positive (Symbol ''c'')] {} =
        (Inr fu, {}) \<and>
      args fu = [[CHR 0xCE, CHR 0x94, CHR ''a'']] \<and>
      real_value (\<lambda>s. 2) (expr fu) = 1) \<and>
   calculate_absolute_uncertainty ref_engine \<lparr>args = [''a''], expr = Symbol ''a''\<rparr> [] {} =
     (Inr \<lparr>args = [[CHR 0xCE, CHR 0x94, CHR ''a'']], expr = Symbol ([CHR 0xCE, CHR 0x94, CHR ''a''])\<rparr>, {}) \<and>
   (\<exists>fu. calculate_fractional_uncertainty ref_engine
      \<lparr>args = [''a''], expr = Symbol ''a''\<rparr> [] {} = (Inr fu, {}) \<and>
      args fu = [[CHR 0xCE, CHR 0x94, CHR ''a'']] \<and>
      real_value (\<lambda>s. 2) (expr fu) = 1)"
proof -
  let ?e = "\<lparr>args = [''a'', ''b'', ''c''],
      expr = Add [Symbol ''a'', Symbol ''b'', Mul [Integer (- 1), Symbol ''c'']]\<rparr>"
  let ?au = "\<lparr>args = [[CHR 0xCE, CHR 0x94, CHR ''a''], [CHR 0xCE, CHR 0x94, CHR ''b''], [CHR 0xCE, CHR 0x94, CHR ''c'']],
      expr = Add [Symbol ([CHR 0xCE, CHR 0x94, CHR ''a'']), Symbol ([CHR 0xCE, CHR 0x94, CHR ''b'']), Symbol ([CHR 0xCE, CHR 0x94, CHR ''c''])]\<rparr>"
  let ?e2 = "\<lparr>args = [''a''], expr = Mul [Symbol ''c'', Symbol ''a'']\<rparr>"
  let ?au2 = "\<lparr>args = [[CHR 0xCE, CHR 0x94, CHR ''a'']], expr = Mul [Symbol ''c'', Symbol ([CHR 0xCE, CHR 0x94, CHR ''a''])]\<rparr>"
  let ?e3 = "\<lparr>args = [''a''], expr = Symbol ''a''\<rparr>"
  let ?au3 = "\<lparr>args = [[CHR 0xCE, CHR 0x94, CHR ''a'']], expr = Symbol ([CHR 0xCE, CHR 0x94, CHR ''a''])\<rparr>"
  have h1: "engine_sound ref_engine (\<lambda>s. 2)" by (rule ref_engine_sound)
  have h2: "real_value (\<lambda>s. 2) (expr ?e) \<noteq> 0" by simp
  have h3: "calculate_absolute_uncertainty ref_engine ?e [] {} = (Inr ?au, {})"
    by (simp add: calculate_absolute_uncertainty_def ref_simps)
  have k2: "real_value (\<lambda>s. 2) (expr ?e2) \<noteq> 0" by simp
  have k3: "calculate_absolute_uncertainty ref_engine ?e2 [Q_positive (Symbol ''c'')] {} =
      (Inr ?au2, {})"
    by (simp add: calculate_absolute_uncertainty_def ref_simps)
  have m2: "real_value (\<lambda>s. 2) (expr ?e3) \<noteq> 0" by simp
  have m3: "calculate_absolute_uncertainty ref_engine ?e3 [] {} = (Inr ?au3, {})"
    by (simp add: calculate_absolute_uncertainty_def ref_simps)
  from fractional_is_absolute_over_formula [OF h1 h2 h3]
  have r1: "\<exists>fu. calculate_fractional_uncertainty ref_engine ?e [] {} = (Inr fu, {}) \<and>
      args fu = [[CHR 0xCE, CHR 0x94, CHR ''a''], [CHR 0xCE, CHR 0x94, CHR ''b''], [CHR 0xCE, CHR 0x94, CHR ''c'']] \<and>
      real_value (\<lambda>s. 2) (expr fu) = 3"
    by simp
  from fractional_is_absolute_over_formula [OF h1 k2 k3]
  have r2: "\<exists>fu. calculate_fractional_uncertainty ref_engine ?e2
        [Q_positive (Symbol ''c'')] {} = (Inr fu, {}) \<and>
      args fu = [[CHR 0xCE, CHR 0x94, CHR ''a'']] \<and> real_value (\<lambda>s. 2) (expr fu) = 1"
    by simp
  from fractional_is_absolute_over_formula [OF h1 m2 m3]
  have r3: "\<exists>fu. calculate_fractional_uncertainty ref_engine ?e3 [] {} = (Inr fu, {}) \<and>
      args fu = [[CHR 0xCE, CHR 0x94, CHR ''a'']] \<and> real_value (\<lambda>s. 2) (expr fu) = 1"
    by simp
  from h1 h2 h3 r1 k3 r2 m3 r3 show ?thesis by blast
qed

text \<open>
  Claim C3.  The \<^verbatim>\<open>try\<close> block of \<^verbatim>\<open>calculate_uncertainties\<close> (lines 78--90) always
  raises, whatever the six values read from the request: its first statement looks up
  \<^verbatim>\<open>Expression.from_string\<close>, which the class does not bind (it binds \<^verbatim>\<open>from_latex\<close>,
  which returns \<^verbatim>\<open>None\<close>), so \<^verbatim>\<open>AttributeError\<close> is raised; \<^verbatim>\<open>evaluate\<close> rejects the
  keyword \<^verbatim>\<open>precision\<close>; the two uncertainty methods reject the keyword \<^verbatim>\<open>refine\<close>;
  and so the block raises even for a class that did bind some \<^verbatim>\<open>from_string\<close>.  Hence
  every request that reaches the \<^verbatim>\<open>try\<close> block, which is every request whose body is a
  JSON object, gets the response with \<open>success = false\<close> and every string field blank, and
  the endpoint never reports a success.
\<close>

theorem calculate_uncertainties_never_succeeds:
  "calculate_try K Expression_from_string str_expr str_args str_vars values prec refine G =
     (Inl (AttributeError ''from_string''), G) \<and>
   calculate_uncertainties K (JObject kvs) G = (Inr failure_response, G) \<and>
   failure_response =
     JObject [(''success'', JBool False),
              (''value'', JString []),
              (''absoluteUncertaintyExpr'', JString []),
              (''absoluteUncertainty'', JString []),
              (''fractionalUncertaintyExpr'', JString []),
              (''percentageUncertainty'', JString [])] \<and>
   Expression_from_string = None \<and>
   ''from_string'' \<notin> set Expression_attributes \<and>
   ''from_latex'' \<in> set Expression_attributes \<and>
   from_latex markup = None \<and>
   (\<exists>msg. evaluate_call K e values [(''precision'', prec)] = Inl (TypeError msg)) \<and>
   (\<exists>msg. calculate_absolute_uncertainty_call K e assumptions [(''refine'', refine)] G =
            (Inl (TypeError msg), G)) \<and>
   (\<exists>msg. calculate_fractional_uncertainty_call K e assumptions [(''refine'', refine)] G =
            (Inl (TypeError msg), G)) \<and>
   (\<exists>err. calculate_try K from_string str_expr str_args str_vars values prec refine G =
            (Inl err, G)) \<and>
   (\<nexists>response. fst (calculate_uncertainties K body G) = Inr response \<and>
                 response \<noteq> failure_response)"
proof -
  have 0: "calculate_try K Expression_from_string str_expr str_args str_vars values prec
      refine G = (Inl (AttributeError ''from_string''), G)"
    by (simp add: calculate_try_def Expression_from_string_def Expression_attributes_def)
  have 1: "calculate_uncertainties K (JObject kvs) G = (Inr failure_response, G)"
    by (simp add: calculate_uncertainties_def calculate_uncertainties_with_object)
  have 2: "\<nexists>response. fst (calculate_uncertainties K body G) = Inr response \<and>
      response \<noteq> failure_response"
  proof (cases "\<exists>kvs. body = JObject kvs")
    case True
    then show ?thesis
      by (auto simp: calculate_uncertainties_def calculate_uncertainties_with_object)
  next
    case False
    then have "request_fields body = Inl (AttributeError ''get'')"
      by (simp add: request_fields_not_object)
    then show ?thesis
      by (simp add: calculate_uncertainties_def calculate_uncertainties_with_def)
  qed
  have 3: "Expression_from_string = None \<and> ''from_string'' \<notin> set Expression_attributes \<and>
      ''from_latex'' \<in> set Expression_attributes \<and> from_latex markup = None"
    by (simp add: Expression_from_string_def Expression_attributes_def from_latex_def)
  have 4: "\<exists>msg. evaluate_call K e values [(''precision'', prec)] = Inl (TypeError msg)"
    by (simp add: evaluate_call_def)
  have 5: "\<exists>msg. calculate_absolute_uncertainty_call K e assumptions [(''refine'', refine)] G =
      (Inl (TypeError msg), G)"
    by (simp add: calculate_absolute_uncertainty_call_def)
  have 6: "\<exists>msg. calculate_fractional_uncertainty_call K e assumptions [(''refine'', refine)] G =
      (Inl (TypeError msg), G)"
    by (simp add: calculate_fractional_uncertainty_call_def)
  have 7: "\<exists>err. calculate_try K from_string str_expr str_args str_vars values prec refine G =
      (Inl err, G)"
    by (rule calculate_try_raises)
  have 8: "failure_response =
     JObject [(''success'', JBool False),
              (''value'', JString []),
              (''absoluteUncertaintyExpr'', JString []),
              (''absoluteUncertainty'', JString []),
              (''fractionalUncertaintyExpr'', JString []),
              (''percentageUncertainty'', JString [])]"
    by (simp add: failure_response_def)
  from 0 1 2 3 4 5 6 7 8 show ?thesis by blast
qed

text \<open>
  Claim C4.  \<^verbatim>\<open>global_assumptions.clear()\<close> stands at line 78, after the loop and the
  refinement and under no \<^verbatim>\<open>try ... finally\<close>: a call that returns leaves the set empty
  (lemmas \<open>calculate_absolute_uncertainty_clears\<close> and
  \<open>calculate_fractional_uncertainty_clears\<close>), a call that raises leaves in it what it
  found, what was supplied and the positivity assumptions added so far (lemma
  \<open>calculate_absolute_uncertainty_raises\<close>), and the next call refines under them.  Two
  runs on the reference engine:
  \<^item> The call on \<open>Expression([x y], x y)\<close> with \<open>Q.positive(c)\<close> supplied raises
    \<^verbatim>\<open>TypeError\<close> at line 74 and leaves \<open>Q.positive(c)\<close>.  The later call on
    \<open>Expression([a], c*a)\<close> with nothing supplied then returns \<open>c*\<Delta>a\<close>; from the empty set
    it returns \<open>Abs(c)*\<Delta>a\<close>.
  \<^item> The call on \<open>Expression([a], a**2)\<close> with \<open>Q.negative(a)\<close> supplied raises in
    \<open>refine\<close> and leaves \<open>Q.negative(a)\<close> and \<open>Q.positive(a)\<close>.  The later call on
    \<open>Expression([b], a*b)\<close> with nothing supplied then raises too; from the empty set it
    returns \<open>Abs(a)*\<Delta>b\<close>.
\<close>

theorem assumptions_survive_a_raising_call:
  "calculate_absolute_uncertainty ref_engine
     \<lparr>args = [''x y''], expr = Symbol ''x y''\<rparr> [Q_positive (Symbol ''c'')] {} =
     (Inl (TypeError ''unsupported operand type(s)''), {Q_positive (Symbol ''c'')}) \<and>
   calculate_absolute_uncertainty ref_engine
     \<lparr>args = [''a''], expr = Mul [Symbol ''c'', Symbol ''a'']\<rparr> [] {Q_positive (Symbol ''c'')} =
     (Inr \<lparr>args = [[CHR 0xCE, CHR 0x94, CHR ''a'']],
           expr = Mul [Symbol ''c'', Symbol [CHR 0xCE, CHR 0x94, CHR ''a'']]\<rparr>, {}) \<and>
   calculate_absolute_uncertainty ref_engine
     \<lparr>args = [''a''], expr = Mul [Symbol ''c'', Symbol ''a'']\<rparr> [] {} =
     (Inr \<lparr>args = [[CHR 0xCE, CHR 0x94, CHR ''a'']],
           expr = Mul [Abs (Symbol ''c''), Symbol [CHR 0xCE, CHR 0x94, CHR ''a'']]\<rparr>, {}) \<and>
   calculate_absolute_uncertainty ref_engine
     \<lparr>args = [''a''], expr = Pow (Symbol ''a'') (Integer 2)\<rparr> [Q_negative (Symbol ''a'')] {} =
     (Inl (ValueError ''inconsistent assumptions''),
      {Q_negative (Symbol ''a''), Q_positive (Symbol ''a'')}) \<and>
   calculate_absolute_uncertainty ref_engine
     \<lparr>args = [''b''], expr = Mul [Symbol ''a'', Symbol ''b'']\<rparr> []
     {Q_negative (Symbol ''a''), Q_positive (Symbol ''a'')} =
     (Inl (ValueError ''inconsistent assumptions''),
      {Q_negative (Symbol ''a''), Q_positive (Symbol ''a''), Q_positive (Symbol ''b'')}) \<and>
   calculate_absolute_uncertainty ref_engine
     \<lparr>args = [''b''], expr = Mul [Symbol ''a'', Symbol ''b'']\<rparr> [] {} =
     (Inr \<lparr>args = [[CHR 0xCE, CHR 0x94, CHR ''b'']],
           expr = Mul [Abs (Symbol ''a''), Symbol [CHR 0xCE, CHR 0x94, CHR ''b'']]\<rparr>, {})"
proof -
  have 1: "calculate_absolute_uncertainty ref_engine
     \<lparr>args = [''x y''], expr = Symbol ''x y''\<rparr> [Q_positive (Symbol ''c'')] {} =
     (Inl (TypeError ''unsupported operand type(s)''), {Q_positive (Symbol ''c'')})"
    by (simp add: calculate_absolute_uncertainty_def ref_simps)
  have 2: "calculate_absolute_uncertainty ref_engine
     \<lparr>args = [''a''], expr = Mul [Symbol ''c'', Symbol ''a'']\<rparr> [] {Q_positive (Symbol ''c'')} =
     (Inr \<lparr>args = [[CHR 0xCE, CHR 0x94, CHR ''a'']],
           expr = Mul [Symbol ''c'', Symbol [CHR 0xCE, CHR 0x94, CHR ''a'']]\<rparr>, {})"
    by (simp add: calculate_absolute_uncertainty_def ref_simps)
  have 3: "calculate_absolute_uncertainty ref_engine
     \<lparr>args = [''a''], expr = Mul [Symbol ''c'', Symbol ''a'']\<rparr> [] {} =
     (Inr \<lparr>args = [[CHR 0xCE, CHR 0x94, CHR ''a'']],
           expr = Mul [Abs (Symbol ''c''), Symbol [CHR 0xCE, CHR 0x94, CHR ''a'']]\<rparr>, {})"
    by (simp add: calculate_absolute_uncertainty_def ref_simps)
  have 4: "calculate_absolute_uncertainty ref_engine
     \<lparr>args = [''a''], expr = Pow (Symbol ''a'') (Integer 2)\<rparr> [Q_negative (Symbol ''a'')] {} =
     (Inl (ValueError ''inconsistent assumptions''),
      {Q_negative (Symbol ''a''), Q_positive (Symbol ''a'')})"
    by (auto simp: calculate_absolute_uncertainty_def ref_simps)
  have 5: "calculate_absolute_uncertainty ref_engine
     \<lparr>args = [''b''], expr = Mul [Symbol ''a'', Symbol ''b'']\<rparr> []
     {Q_negative (Symbol ''a''), Q_positive (Symbol ''a'')} =
     (Inl (ValueError ''inconsistent assumptions''),
      {Q_negative (Symbol ''a''), Q_positive (Symbol ''a''), Q_positive (Symbol ''b'')})"
    by (auto simp: calculate_absolute_uncertainty_def ref_simps)
  have 6: "calculate_absolute_uncertainty ref_engine
     \<lparr>args = [''b''], expr = Mul [Symbol ''a'', Symbol ''b'']\<rparr> [] {} =
     (Inr \<lparr>args = [[CHR 0xCE, CHR 0x94, CHR ''b'']],
           expr = Mul [Abs (Symbol ''a''), Symbol [CHR 0xCE, CHR 0x94, CHR ''b'']]\<rparr>, {})"
    by (simp add: calculate_absolute_uncertainty_def ref_simps)
  from 1 2 3 4 5 6 show ?thesis by blast
qed

text \<open>
  Claim C5.  For an Expression with no variables the loop does nothing:
  \<^verbatim>\<open>calculate_absolute_uncertainty\<close> hands the initial sum \<open>Integer 0\<close> to the
  library's \<open>refine\<close>, and, \<open>refine\<close> returning the integer unchanged (sympy returns
  every atom as it is), the call succeeds with an empty variable list and the formula
  \<open>Integer 0\<close>.
\<close>

theorem no_variables_zero_uncertainty:
  assumes "args e = []"
    and "e_refine K (G \<union> set assumptions) (Integer 0) = Inr (Integer 0)"
  shows "calculate_absolute_uncertainty K e assumptions G =
           (Inr \<lparr>args = [], expr = Integer 0\<rparr>, {})"
  using assms by (simp add: calculate_absolute_uncertainty_def Expression_init_def)

text \<open>\<open>Expression([], E)\<close>, the Expression of the second doctest of \<^verbatim>\<open>__repr__\<close>.\<close>

theorem no_variables_zero_uncertainty_witness:
  "args \<lparr>args = [], expr = Exp1\<rparr> = [] \<and>
   e_refine ref_engine ({} \<union> set [Q_positive (Symbol ''c'')]) (Integer 0) = Inr (Integer 0) \<and>
   calculate_absolute_uncertainty ref_engine \<lparr>args = [], expr = Exp1\<rparr>
     [Q_positive (Symbol ''c'')] {} = (Inr \<lparr>args = [], expr = Integer 0\<rparr>, {})"
proof -
  have h1: "args \<lparr>args = [], expr = Exp1\<rparr> = []" by simp
  have h2: "e_refine ref_engine ({} \<union> set [Q_positive (Symbol ''c'')]) (Integer 0) =
      Inr (Integer 0)"
    by (simp add: ref_engine_def ref_refine_def)
  from no_variables_zero_uncertainty [OF h1 h2] h1 h2 show ?thesis by blast
qed

text \<open>
  Claim C6.  \<^verbatim>\<open>evaluate(self, values)\<close> has no precision parameter: the call
  \<^verbatim>\<open>evaluate(values, precision=prec)\<close> the handler makes raises \<^verbatim>\<open>TypeError\<close>, and
  the call without the keyword returns \<^verbatim>\<open>self.expr.subs(values)\<close> as the library
  gives it, with no rounding step of the program's own.
\<close>

theorem evaluate_rejects_precision:
  "evaluate_call K e values [(''precision'', prec)] =
     Inl (TypeError ''evaluate() got an unexpected keyword argument precision'') \<and>
   evaluate_call K e values [] = e_subs K (expr e) values"
  by (simp add: evaluate_call_def evaluate_def)

text \<open>
  Claim C7, as the code has it.  Construction checks nothing: for every variable list and
  every formula it succeeds and stores both unchanged.
\<close>

theorem construction_never_validates:
  "Expression_init vars f = Inr \<lparr>args = vars, expr = f\<rparr>"
  by (simp add: Expression_init_def)

text \<open>
  Claim C7 as stated fails at \<open>Expression([a], c*a)\<close>, the Expression of the first
  doctest of \<^verbatim>\<open>calculate_absolute_uncertainty\<close>: the formula refers to \<open>c\<close>, \<open>c\<close> is not
  declared, and construction succeeds.
\<close>

theorem construction_never_validates_counterexample:
  "''c'' \<in> atoms_Symbol (Mul [Symbol ''c'', Symbol ''a'']) \<and>
   ''c'' \<notin> set [''a''] \<and>
   Expression_init [''a''] (Mul [Symbol ''c'', Symbol ''a'']) =
     Inr \<lparr>args = [''a''], expr = Mul [Symbol ''c'', Symbol ''a'']\<rparr>"
  by (simp add: Expression_init_def)






text \<open>
  Claim C10.  The six reads of the request body, lines 72--77, stand before the
  \<^verbatim>\<open>try\<close>.  For a request whose body is the JSON value \<open>null\<close>, or any JSON array, the
  first read raises \<^verbatim>\<open>AttributeError\<close> and the exception leaves the handler: no response
  is built.  A failure inside the \<^verbatim>\<open>try\<close> is caught: the request
  \<^verbatim>\<open>{"vars": 5}\<close> gets the response with \<open>success = false\<close> in which every string
  field is present and blank, as every request whose body is a JSON object does (lemma
  \<open>calculate_uncertainties_with_object\<close>).
\<close>

theorem body_reads_stand_outside_the_try:
  "calculate_uncertainties K JNull G = (Inl (AttributeError ''get''), G) \<and>
   calculate_uncertainties K (JArray xs) G = (Inl (AttributeError ''get''), G) \<and>
   calculate_uncertainties K (JObject [(''vars'', JNumber 5)]) G =
     (Inr (JObject [(''success'', JBool False),
                    (''value'', JString []),
                    (''absoluteUncertaintyExpr'', JString []),
                    (''absoluteUncertainty'', JString []),
                    (''fractionalUncertaintyExpr'', JString []),
                    (''percentageUncertainty'', JString [])]), G)"
proof -
  have 1: "calculate_uncertainties K JNull G = (Inl (AttributeError ''get''), G)"
    by (simp add: calculate_uncertainties_def calculate_uncertainties_with_def
        request_fields_def and_then_def)
  have 2: "calculate_uncertainties K (JArray xs) G = (Inl (AttributeError ''get''), G)"
    by (simp add: calculate_uncertainties_def calculate_uncertainties_with_def
        request_fields_def and_then_def)
  have 3: "calculate_uncertainties K (JObject [(''vars'', JNumber 5)]) G =
     (Inr (JObject [(''success'', JBool False),
                    (''value'', JString []),
                    (''absoluteUncertaintyExpr'', JString []),
                    (''absoluteUncertainty'', JString []),
                    (''fractionalUncertaintyExpr'', JString []),
                    (''percentageUncertainty'', JString [])]), G)"
    by (simp add: calculate_uncertainties_def calculate_uncertainties_with_object
        failure_response_def)
  from 1 2 3 show ?thesis by blast
qed

end
